theory Spec2Isabelle
  imports Complex_Main
begin

section \<open>Numbers, helpers and errors of the trade services\<close>

text \<open>
  The matching engine of \<^verbatim>\<open>trade-bid.service.ts\<close> computes with JavaScript numbers.
  It is embedded over the exact rationals: every \<^verbatim>\<open>+\<close>, \<^verbatim>\<open>-\<close>, \<^verbatim>\<open>*\<close> and comparison of the
  source is the exact operation of \<^typ>\<open>rat\<close>, so the binary rounding of doubles is left
  out of the model. The asset repository, whose check reads the decimal text of a number,
  is embedded further down over that text.
\<close>

definition formatQuantity :: "rat \<Rightarrow> rat" where
  \<comment> \<open>Modelled from the spec: \<^verbatim>\<open>helpers/trade.helper.ts\<close> is missing; the spec's
      \<^verbatim>\<open>truncate\<close> cuts a value to at most 8 fractional digits.\<close>
  "formatQuantity v =
     (if 0 \<le> v then of_int \<lfloor>v * 100000000\<rfloor> / 100000000
      else - (of_int \<lfloor>- v * 100000000\<rfloor> / 100000000))"

definition isMinimumQuantity :: "rat \<Rightarrow> bool" where
  \<comment> \<open>Modelled from the spec: \<^verbatim>\<open>helpers/trade.helper.ts\<close> is missing; a quantity under
      the epsilon (0.00000001 in the spec's example) is dust.\<close>
  "isMinimumQuantity q = (q < 1 / 100000000)"

datatype error =
    BelowMinimumTradeSize   \<comment> \<open>BadRequestException, notional under the minimum\<close>
  | QuantityNotPositive     \<comment> \<open>BadRequestException, receivedAmount <= 0\<close>
  | InsufficientFunds       \<comment> \<open>UnprocessableEntityException of checkCurrencyBalance\<close>
  | AccountNotFound         \<comment> \<open>validateUserAccount finds no account\<close>
  | TradeNotFound           \<comment> \<open>TradeNotFoundException\<close>
  | JsTypeError             \<comment> \<open>a property read on null\<close>
  | StorageFailure          \<comment> \<open>any failure of the storage layer\<close>
  | InvalidValue            \<comment> \<open>InternalServerErrorException of ensureMax8Decimals\<close>
  | InternalServerError     \<comment> \<open>InternalServerErrorException of the asset repository\<close>

section \<open>Data model\<close>

record Account =
  accountId :: nat
  accountUser :: nat
  KRW :: rat
  availableKRW :: rat
  USDT :: rat
  BTC :: rat

record Trade =
  tradeId :: nat
  tradeUser :: nat
  price :: rat
  quantity :: rat

text \<open>
  An asset holding, over the type of its numbers: the matcher works on holdings with
  rational numbers, the asset repository on holdings whose numbers are JavaScript values
  with their decimal text.
\<close>

record 'n Asset =
  assetId :: nat
  assetName :: string
  assetAccount :: nat
  assetPrice :: 'n
  assetQuantity :: 'n
  availableQuantity :: 'n

record OrderBookEntry =
  ask_price :: rat
  ask_size :: rat

text \<open>
  \<^verbatim>\<open>TradeData\<close> is the order as the matcher passes it around. \<^verbatim>\<open>bidTradeService\<close> stores the
  loaded account in it before the fill loop, its only caller of \<^verbatim>\<open>executeBidTrade\<close>, so
  the field \<open>account\<close> always holds an account there.
\<close>

record TradeData =
  dtoTradeId :: nat
  userId :: nat
  typeGiven :: string
  typeReceived :: string
  receivedPrice :: rat
  receivedAmount :: rat
  krw :: rat
  accountBalance :: "rat option"
  account :: Account

text \<open>
  The storage and the in-process state of the services: the order store, the balance
  ledger, the asset holdings, the fill history, the Redis list of created orders, the
  console log of \<^verbatim>\<open>createBidTrade\<close>, and the in-flight guard \<^verbatim>\<open>isProcessing\<close>.
\<close>

record State =
  trades :: "Trade list"
  accounts :: "Account list"
  assets :: "rat Asset list"
  history :: "(nat \<times> Trade) list"
  redis :: "Trade list"
  console :: "error list"
  isProcessing :: "nat \<rightharpoonup> bool"

section \<open>Storage operations\<close>

definition findTradeWithLock :: "nat \<Rightarrow> State \<Rightarrow> Trade option" where
  \<comment> \<open>Modelled from the spec: \<^verbatim>\<open>trade.repository.ts\<close> is missing;
      \<^verbatim>\<open>lockAndLoad(orderId) -> Order | not-found\<close>.\<close>
  "findTradeWithLock tid s = find (\<lambda>t. tradeId t = tid) (trades s)"

definition getAccount :: "nat \<Rightarrow> State \<Rightarrow> Account option" where
  \<comment> \<open>Modelled from the spec: \<^verbatim>\<open>account.repository.ts\<close> is missing; the account of a user.\<close>
  "getAccount uid s = find (\<lambda>a. accountUser a = uid) (accounts s)"

definition getAsset :: "nat \<Rightarrow> string \<Rightarrow> State \<Rightarrow> rat Asset option" where
  "getAsset aid name s =
     find (\<lambda>a. assetAccount a = aid \<and> assetName a = name) (assets s)"

definition balanceColumn :: "string \<Rightarrow> bool" where
  "balanceColumn c =
     (c = ''KRW'' \<or> c = ''availableKRW'' \<or> c = ''USDT'' \<or> c = ''BTC'')"

definition addToColumn :: "string \<Rightarrow> rat \<Rightarrow> Account \<Rightarrow> Account" where
  \<comment> \<open>A signed delta on the balance column of that name.\<close>
  "addToColumn c d a =
     (if c = ''KRW'' then a\<lparr>KRW := KRW a + d\<rparr>
      else if c = ''availableKRW'' then a\<lparr>availableKRW := availableKRW a + d\<rparr>
      else if c = ''USDT'' then a\<lparr>USDT := USDT a + d\<rparr>
      else if c = ''BTC'' then a\<lparr>BTC := BTC a + d\<rparr>
      else a)"

definition updateAccountCurrency :: "string \<Rightarrow> rat \<Rightarrow> nat \<Rightarrow> State \<Rightarrow> error + State" where
  \<comment> \<open>Modelled from the spec: \<^verbatim>\<open>account.repository.ts\<close> is missing;
      \<^verbatim>\<open>adjustAvailable(accountId, currency, delta)\<close>, a signed delta on one column.
      A column the table does not have makes the statement fail.\<close>
  "updateAccountCurrency c change aid s =
     (if \<not> balanceColumn c then Inl StorageFailure
      else Inr (s\<lparr>accounts :=
                  map (\<lambda>a. if accountId a = aid then addToColumn c change a else a)
                    (accounts s)\<rparr>))"

definition updateAccountCurrencyWithBid ::
  "string \<Rightarrow> rat \<Rightarrow> rat \<Rightarrow> nat \<Rightarrow> State \<Rightarrow> error + State" where
  \<comment> \<open>Modelled from the spec: \<^verbatim>\<open>account.repository.ts\<close> is missing;
      \<^verbatim>\<open>adjustTotal(accountId, currency, delta)\<close> together with
      \<^verbatim>\<open>adjustAvailable(accountId, currency, delta)\<close> in one statement.\<close>
  "updateAccountCurrencyWithBid c change availableChange aid s =
     (if \<not> balanceColumn c then Inl StorageFailure
      else Inr (s\<lparr>accounts :=
                  map (\<lambda>a. if accountId a = aid
                            then addToColumn ''availableKRW'' availableChange
                                   (addToColumn c change a)
                            else a)
                    (accounts s)\<rparr>))"

definition updateTradeData :: "Trade \<Rightarrow> Trade \<Rightarrow> State \<Rightarrow> rat \<times> State" where
  \<comment> \<open>Modelled from the spec: \<^verbatim>\<open>trade-ask-bid.service.ts\<close> is missing; the order's
      remaining quantity becomes the truncated difference and is persisted in the fill
      transaction; a remainder under the minimum is not kept as a pending amount. The
      remaining quantity is the result.\<close>
  "updateTradeData tradeData buyData s =
     (let remaining = formatQuantity (quantity tradeData - quantity buyData)
      in (remaining,
          s\<lparr>trades :=
              (if isMinimumQuantity remaining
               then filter (\<lambda>t. tradeId t \<noteq> tradeId tradeData) (trades s)
               else map (\<lambda>t. if tradeId t = tradeId tradeData
                              then t\<lparr>quantity := remaining\<rparr> else t)
                      (trades s))\<rparr>))"

definition createTradeHistory :: "bool \<Rightarrow> nat \<Rightarrow> Trade \<Rightarrow> State \<Rightarrow> State" where
  \<comment> \<open>The history recorder appends the fill; the call gets no query runner and is not
      awaited, so a failure (the flag) only leaves the fill unrecorded.\<close>
  "createTradeHistory fails user buyData s =
     (if fails then s else s\<lparr>history := history s @ [(user, buyData)]\<rparr>)"

section \<open>The BUY matcher of trade-bid.service.ts\<close>

text \<open>
  What the storage layer does at one fill is not decided by the service, so each call of
  \<^verbatim>\<open>executeBidTrade\<close> takes the outcome of its storage calls as \<open>Faults\<close>: whether the
  locked load throws, whether the remaining-quantity update throws (before or after its
  write reached the transaction), whether the commit throws, and whether the calls that
  are not awaited (history, asset update, balance update) reject.
\<close>

datatype fault = NoFault | FailBefore error | FailAfter error

record Faults =
  lockFault :: "error option"
  historyFault :: bool
  updateFault :: fault
  commitFault :: "error option"
  assetFault :: bool
  balanceFault :: bool

definition noFaults :: Faults where
  "noFaults = \<lparr>lockFault = None, historyFault = False, updateFault = NoFault,
               commitFault = None, assetFault = False, balanceFault = False\<rparr>"

definition rollbackTransaction :: "Trade list \<Rightarrow> State \<Rightarrow> State" where
  \<comment> \<open>The transaction of the query runner covers the order store: a rollback puts back
      the orders as they were at \<^verbatim>\<open>startTransaction\<close>.\<close>
  "rollbackTransaction snapshot s = s\<lparr>trades := snapshot\<rparr>"

definition processAssetUpdate :: "bool \<Rightarrow> TradeData \<Rightarrow> nat \<Rightarrow> Trade \<Rightarrow> State \<Rightarrow> State" where
  \<comment> \<open>The promise is not awaited: when a repository call rejects (the flag), the holdings
      stay as they were and nobody is told. The two writes are those of
      \<^verbatim>\<open>updateAssetQuantityPrice\<close> and \<^verbatim>\<open>createAsset\<close>.\<close>
  "processAssetUpdate fails bidDto accId buyData s =
     (if fails then s
      else case getAsset accId (typeReceived bidDto) s of
        Some asset \<Rightarrow>
          (let asset' = asset\<lparr>
                 assetPrice :=
                   formatQuantity (assetPrice asset + price buyData * quantity buyData),
                 assetQuantity := formatQuantity (assetQuantity asset + quantity buyData),
                 availableQuantity :=
                   formatQuantity (availableQuantity asset + quantity buyData)\<rparr>
           in s\<lparr>assets :=
                  map (\<lambda>a. if assetId a = assetId asset'
                            then a\<lparr>assetQuantity := assetQuantity asset',
                                   assetPrice := assetPrice asset',
                                   availableQuantity := availableQuantity asset'\<rparr>
                            else a)
                    (assets s)\<rparr>)
      | None \<Rightarrow>
          s\<lparr>assets := assets s @
               [\<lparr>assetId = length (assets s),
                 assetName = typeReceived bidDto,
                 assetAccount = accountId (account bidDto),
                 assetPrice = formatQuantity (price buyData * quantity buyData),
                 assetQuantity = formatQuantity (quantity buyData),
                 availableQuantity = formatQuantity (quantity buyData)\<rparr>]\<rparr>)"

definition updateAccountBalances :: "bool \<Rightarrow> TradeData \<Rightarrow> Trade \<Rightarrow> Account \<Rightarrow> State \<Rightarrow> State" where
  "updateAccountBalances fails bidDto buyData userAccount s =
     (let returnChange = formatQuantity (price buyData * quantity buyData);
          change = formatQuantity
                     ((receivedPrice bidDto - price buyData) * quantity buyData)
      in if fails then s
         else case updateAccountCurrencyWithBid (typeGiven bidDto) (- returnChange) change
                     (accountId userAccount) s of
                Inl e \<Rightarrow> s
              | Inr s' \<Rightarrow> s')"

definition executeBidTrade ::
  "Faults \<Rightarrow> TradeData \<Rightarrow> OrderBookEntry \<Rightarrow> nat \<Rightarrow> State
     \<Rightarrow> (error + rat) \<times> TradeData \<times> State" where
  "executeBidTrade f bidDto order user s =
     (let snapshot = trades s in
      case lockFault f of
        Some e \<Rightarrow> (Inl e, bidDto, rollbackTransaction snapshot s)
      | None \<Rightarrow>
         (case findTradeWithLock (dtoTradeId bidDto) s of
            None \<Rightarrow> (Inr 0, bidDto, s)
          | Some tradeData \<Rightarrow>
             if isMinimumQuantity (quantity tradeData) then (Inr 0, bidDto, s)
             else
              let buyQuantity =
                    formatQuantity (if quantity tradeData \<ge> ask_size order
                                    then ask_size order else quantity tradeData)
              in if isMinimumQuantity buyQuantity then (Inr 0, bidDto, s)
              else
               let buyData = tradeData\<lparr>quantity := buyQuantity,
                               price := formatQuantity (ask_price order * krw bidDto)\<rparr>;
                   s1 = createTradeHistory (historyFault f) user buyData s
               in case updateFault f of
                    FailBefore e \<Rightarrow> (Inl e, bidDto, rollbackTransaction snapshot s1)
                  | FailAfter e \<Rightarrow>
                      (Inl e, bidDto,
                       rollbackTransaction snapshot (snd (updateTradeData tradeData buyData s1)))
                  | NoFault \<Rightarrow>
                     (let result = fst (updateTradeData tradeData buyData s1);
                          s2 = snd (updateTradeData tradeData buyData s1)
                      in case commitFault f of
                           Some e \<Rightarrow> (Inl e, bidDto, rollbackTransaction snapshot s2)
                         | None \<Rightarrow>
                            (let acc = account bidDto;
                                 acc1 = acc\<lparr>availableKRW := availableKRW acc +
                                          formatQuantity ((receivedPrice bidDto - price buyData)
                                                            * quantity buyData)\<rparr>;
                                 acc2 = acc1\<lparr>KRW := KRW acc1 -
                                          formatQuantity (price buyData * quantity buyData)\<rparr>;
                                 bidDto' = bidDto\<lparr>account := acc2\<rparr>;
                                 s3 = processAssetUpdate (assetFault f) bidDto'
                                        (accountId acc2) buyData s2;
                                 s4 = updateAccountBalances (balanceFault f) bidDto' buyData
                                        acc2 s3
                             in (Inr result, bidDto', s4)))))"

fun nextFaults :: "Faults list \<Rightarrow> Faults" where
  "nextFaults [] = noFaults"
| "nextFaults (f # fs) = f"

fun bidLoop ::
  "Faults list \<Rightarrow> TradeData \<Rightarrow> nat \<Rightarrow> OrderBookEntry list \<Rightarrow> State
     \<Rightarrow> (error + unit) \<times> TradeData \<times> State" where
  "bidLoop fs bidDto user [] s = (Inr (), bidDto, s)"
| "bidLoop fs bidDto user (order # rest) s =
     (if ask_price order > receivedPrice bidDto then (Inr (), bidDto, s)
      else case executeBidTrade (nextFaults fs) bidDto order user s of
             (Inl e, bidDto', s') \<Rightarrow>
               if e = TradeNotFound then (Inr (), bidDto', s') else (Inl e, bidDto', s')
           | (Inr remainingQuantity, bidDto', s') \<Rightarrow>
               if isMinimumQuantity remainingQuantity then (Inr (), bidDto', s')
               else bidLoop (tl fs) bidDto' user rest s')"

text \<open>
  What \<^verbatim>\<open>bidTradeService\<close> gets from its collaborators: the order book of the market
  data service, whether loading the user or the account throws, and the storage outcomes
  of the successive fills.
\<close>

record Env =
  orderbook :: "OrderBookEntry list"
  userFault :: "error option"
  accountFault :: "error option"
  levelFaults :: "Faults list"

definition column :: "string \<Rightarrow> Account \<Rightarrow> rat option" where
  \<comment> \<open>\<^verbatim>\<open>account[typeGiven]\<close>: undefined for a name that is no balance column.\<close>
  "column c a =
     (if c = ''KRW'' then Some (KRW a)
      else if c = ''availableKRW'' then Some (availableKRW a)
      else if c = ''USDT'' then Some (USDT a)
      else if c = ''BTC'' then Some (BTC a)
      else None)"

definition bidTradeBody :: "Env \<Rightarrow> TradeData \<Rightarrow> State \<Rightarrow> (error + unit) \<times> State" where
  \<comment> \<open>The \<^verbatim>\<open>try\<close> block of \<^verbatim>\<open>bidTradeService\<close>.\<close>
  "bidTradeBody env bidDto s =
     (case userFault env of
        Some e \<Rightarrow> (Inl e, s)
      | None \<Rightarrow>
         (case accountFault env of
            Some e \<Rightarrow> (Inl e, s)
          | None \<Rightarrow>
             (case getAccount (userId bidDto) s of
                None \<Rightarrow> (Inl JsTypeError, s)
              | Some acc \<Rightarrow>
                 (let bidDto' = bidDto\<lparr>accountBalance := column (typeGiven bidDto) acc,
                                       account := acc\<rparr>
                  in case bidLoop (levelFaults env) bidDto' (userId bidDto) (orderbook env) s of
                       (r, _, s') \<Rightarrow> (r, s')))))"


section \<open>Order creation\<close>

datatype 'a promise = Rejected error | Resolved 'a

record TradeResponse =
  statusCode :: nat

definition checkCurrencyBalance :: "TradeData \<Rightarrow> Account \<Rightarrow> error + rat" where
  "checkCurrencyBalance bidDto acc =
     (let balance = availableKRW acc;
          givenAmount = formatQuantity (receivedPrice bidDto * receivedAmount bidDto);
          remaining = formatQuantity (balance - givenAmount)
      in if remaining < 0 then Inl InsufficientFunds else Inr remaining)"

definition validateUserAccount :: "nat \<Rightarrow> State \<Rightarrow> error + Account" where
  \<comment> \<open>Modelled from the spec: \<^verbatim>\<open>account.repository.ts\<close> is missing; order creation
      validates again that the owner's account exists.\<close>
  "validateUserAccount uid s =
     (case getAccount uid s of None \<Rightarrow> Inl AccountNotFound | Some a \<Rightarrow> Inr a)"

definition createTrade :: "TradeData \<Rightarrow> nat \<Rightarrow> State \<Rightarrow> Trade \<times> State" where
  \<comment> \<open>Modelled from the spec: \<^verbatim>\<open>trade.repository.ts\<close> is missing;
      \<^verbatim>\<open>insertPending(order)\<close> with an unused id.\<close>
  "createTrade bidDto uid s =
     (let t = \<lparr>tradeId = Suc (fold max (map tradeId (trades s)) 0), tradeUser = uid,
               price = receivedPrice bidDto, quantity = receivedAmount bidDto\<rparr>
      in (t, s\<lparr>trades := trades s @ [t]\<rparr>))"

definition executeTransaction ::
  "(State \<Rightarrow> error + 'a \<times> State) \<Rightarrow> State \<Rightarrow> (error + 'a) \<times> State" where
  \<comment> \<open>Modelled from the spec: \<^verbatim>\<open>trade-ask-bid.service.ts\<close> is missing; the callback runs
      inside one transaction, a throw rolls it back and goes on to the caller.\<close>
  "executeTransaction cb s =
     (case cb s of Inl e \<Rightarrow> (Inl e, s) | Inr (r, s') \<Rightarrow> (Inr r, s'))"

definition createBidTradeCallback ::
  "nat \<Rightarrow> TradeData \<Rightarrow> State \<Rightarrow> error + (TradeResponse \<times> Trade) \<times> State" where
  \<comment> \<open>The callback handed to \<^verbatim>\<open>executeTransaction\<close>; next to the response it gives the
      order it assigned to the variable \<^verbatim>\<open>userTrade\<close> of the enclosing function.\<close>
  "createBidTradeCallback uid bidDto s =
     (if receivedAmount bidDto \<le> 0 then Inl QuantityNotPositive
      else case validateUserAccount uid s of
        Inl e \<Rightarrow> Inl e
      | Inr userAccount \<Rightarrow>
         (case checkCurrencyBalance bidDto userAccount of
            Inl e \<Rightarrow> Inl e
          | Inr _ \<Rightarrow>
             (case updateAccountCurrency ''availableKRW''
                     (- formatQuantity (receivedPrice bidDto * receivedAmount bidDto))
                     (accountId userAccount) s of
                Inl e \<Rightarrow> Inl e
              | Inr s1 \<Rightarrow>
                 (let userTrade = fst (createTrade bidDto uid s1);
                      s2 = snd (createTrade bidDto uid s1)
                  in Inr ((\<lparr>statusCode = 200\<rparr>, userTrade), s2)))))"

definition createBidTrade ::
  "bool \<Rightarrow> nat \<Rightarrow> TradeData \<Rightarrow> State \<Rightarrow> TradeResponse option promise \<times> State" where
  \<comment> \<open>The flag says whether the Redis write throws. \<open>Resolved None\<close> is the promise
      fulfilled with \<^verbatim>\<open>undefined\<close>, what the function gives after its \<^verbatim>\<open>catch\<close> block
      has logged the error.\<close>
  "createBidTrade redisFails uid bidDto s =
     (if isMinimumQuantity (receivedAmount bidDto * receivedPrice bidDto)
      then (Rejected BelowMinimumTradeSize, s)
      else case executeTransaction (createBidTradeCallback uid bidDto) s of
        (Inl e, s') \<Rightarrow> (Resolved None, s'\<lparr>console := console s' @ [e]\<rparr>)
      | (Inr (transactionResult, userTrade), s') \<Rightarrow>
          if statusCode transactionResult = 200 then
            (if redisFails
             then (Resolved None, s'\<lparr>console := console s' @ [StorageFailure]\<rparr>)
             else (Resolved (Some transactionResult),
                   s'\<lparr>redis := redis s' @ [userTrade]\<rparr>))
          else (Resolved (Some transactionResult), s'))"

section \<open>The asset repository and its decimal check\<close>

text \<open>
  \<^verbatim>\<open>ensureMax8Decimals\<close> decides on \<^verbatim>\<open>value.toString()\<close>. A JavaScript number is therefore
  embedded with what \<^verbatim>\<open>Number::toString\<close> of ECMA-262 reads from it: a finite number other
  than zero is its sign, the digits \<open>d1 \<dots> dk\<close> of its shortest decimal text (the first and
  the last digit are not 0) and the exponent \<open>n\<close> with value \<open>0.d1\<dots>dk * 10^n\<close>.
\<close>

datatype jsnumber =
    NaN
  | Infinity bool
  | Zero
  | Finite bool "nat list" int

fun isNaN :: "jsnumber \<Rightarrow> bool" where
  "isNaN NaN = True"
| "isNaN _ = False"

fun isFinite :: "jsnumber \<Rightarrow> bool" where
  "isFinite NaN = False"
| "isFinite (Infinity _) = False"
| "isFinite _ = True"

definition digitChar :: "nat \<Rightarrow> char" where
  "digitChar d =
     (if d = 0 then CHR ''0'' else if d = 1 then CHR ''1'' else if d = 2 then CHR ''2''
      else if d = 3 then CHR ''3'' else if d = 4 then CHR ''4'' else if d = 5 then CHR ''5''
      else if d = 6 then CHR ''6'' else if d = 7 then CHR ''7'' else if d = 8 then CHR ''8''
      else CHR ''9'')"

fun showNat :: "nat \<Rightarrow> string" where
  "showNat n = (if n < 10 then [digitChar n] else showNat (n div 10) @ [digitChar (n mod 10)])"

definition finiteToString :: "nat list \<Rightarrow> int \<Rightarrow> string" where
  \<comment> \<open>Steps 5 to 9 of \<^verbatim>\<open>Number::toString\<close> for radix 10.\<close>
  "finiteToString ds n =
     (let k = int (length ds) in
      if k \<le> n \<and> n \<le> 21 then map digitChar ds @ replicate (nat (n - k)) (CHR ''0'')
      else if 0 < n \<and> n \<le> 21
        then map digitChar (take (nat n) ds) @ ''.'' @ map digitChar (drop (nat n) ds)
      else if - 6 < n \<and> n \<le> 0
        then ''0.'' @ replicate (nat (- n)) (CHR ''0'') @ map digitChar ds
      else
        (let e = n - 1;
             exponent = ''e'' @ (if e < 0 then ''-'' else ''+'') @ showNat (nat \<bar>e\<bar>)
         in if k = 1 then map digitChar ds @ exponent
            else map digitChar (take 1 ds) @ ''.'' @ map digitChar (drop 1 ds) @ exponent))"

fun toString :: "jsnumber \<Rightarrow> string" where
  "toString NaN = ''NaN''"
| "toString (Infinity neg) = (if neg then ''-Infinity'' else ''Infinity'')"
| "toString Zero = ''0''"
| "toString (Finite neg ds n) = (if neg then ''-'' else []) @ finiteToString ds n"

fun split :: "char \<Rightarrow> string \<Rightarrow> string list" where
  \<comment> \<open>\<^verbatim>\<open>String.prototype.split\<close> with a separator of one character.\<close>
  "split c [] = [[]]"
| "split c (x # xs) =
     (if x = c then [] # split c xs
      else case split c xs of
             [] \<Rightarrow> [[x]]
           | part # parts \<Rightarrow> (x # part) # parts)"

definition ensureMax8Decimals :: "jsnumber \<Rightarrow> string \<Rightarrow> error + unit" where
  "ensureMax8Decimals v fieldName =
     (if isNaN v \<or> \<not> isFinite v then Inl InvalidValue
      else
       let valueStr = toString v in
       if CHR ''.'' \<in> set valueStr then
         (case split (CHR ''.'') valueStr of
            _ # decimalPart # _ \<Rightarrow> if length decimalPart > 8 then Inl InvalidValue else Inr ()
          | _ \<Rightarrow> Inr ())
       else Inr ())"

definition fractionDigits :: "jsnumber \<Rightarrow> nat" where
  \<comment> \<open>The spec's measure, not code of the repository: the number of digits of the
      fractional part of the value in decimal notation.\<close>
  "fractionDigits v =
     (case v of Finite neg ds n \<Rightarrow> nat (int (length ds) - n) | _ \<Rightarrow> 0)"

text \<open>
  The repository over the stored holdings. The flag of each operation says whether the
  storage call itself (\<^verbatim>\<open>save\<close>, \<^verbatim>\<open>execute\<close>) throws; every error inside the \<^verbatim>\<open>try\<close> block
  is logged and replaced by an InternalServerErrorException.
\<close>

definition createAsset ::
  "bool \<Rightarrow> string \<Rightarrow> Account \<Rightarrow> jsnumber \<Rightarrow> jsnumber \<Rightarrow> jsnumber Asset list
     \<Rightarrow> error + jsnumber Asset \<times> jsnumber Asset list" where
  "createAsset dbFails received acc price' quantity' store =
     (case ensureMax8Decimals price' ''price'' of
        Inl e \<Rightarrow> Inl InternalServerError
      | Inr _ \<Rightarrow>
         (case ensureMax8Decimals quantity' ''quantity'' of
            Inl e \<Rightarrow> Inl InternalServerError
          | Inr _ \<Rightarrow>
             (let asset = \<lparr>assetId = length store, assetName = received,
                           assetAccount = accountId acc, assetPrice = price',
                           assetQuantity = quantity', availableQuantity = quantity'\<rparr>
              in if dbFails then Inl InternalServerError
                 else Inr (asset, store @ [asset]))))"

definition updateAssetQuantityPrice ::
  "bool \<Rightarrow> jsnumber Asset \<Rightarrow> jsnumber Asset list \<Rightarrow> error + jsnumber Asset list" where
  "updateAssetQuantityPrice dbFails asset store =
     (case ensureMax8Decimals (assetPrice asset) ''price'' of
        Inl e \<Rightarrow> Inl InternalServerError
      | Inr _ \<Rightarrow>
         (case ensureMax8Decimals (assetQuantity asset) ''quantity'' of
            Inl e \<Rightarrow> Inl InternalServerError
          | Inr _ \<Rightarrow>
             (case ensureMax8Decimals (availableQuantity asset) ''availableQuantity'' of
                Inl e \<Rightarrow> Inl InternalServerError
              | Inr _ \<Rightarrow>
                 if dbFails then Inl InternalServerError
                 else Inr (map (\<lambda>a. if assetId a = assetId asset
                                     then a\<lparr>assetQuantity := assetQuantity asset,
                                            assetPrice := assetPrice asset,
                                            availableQuantity := availableQuantity asset\<rparr>
                                     else a)
                             store))))"

definition updateAssetQuantityPriceWithQR ::
  "bool \<Rightarrow> jsnumber Asset \<Rightarrow> jsnumber Asset list \<Rightarrow> error + jsnumber Asset list" where
  \<comment> \<open>The same statement, run on the caller's query runner.\<close>
  "updateAssetQuantityPriceWithQR dbFails asset store =
     updateAssetQuantityPrice dbFails asset store"

definition updateAssetQuantity ::
  "bool \<Rightarrow> jsnumber Asset \<Rightarrow> jsnumber Asset list \<Rightarrow> error + jsnumber Asset list" where
  "updateAssetQuantity dbFails asset store =
     (case ensureMax8Decimals (assetQuantity asset) ''quantity'' of
        Inl e \<Rightarrow> Inl InternalServerError
      | Inr _ \<Rightarrow>
         if dbFails then Inl InternalServerError
         else Inr (map (\<lambda>a. if assetId a = assetId asset
                             then a\<lparr>assetQuantity := assetQuantity asset\<rparr> else a)
                     store))"

definition updateAssetAvailableQuantity ::
  "bool \<Rightarrow> jsnumber Asset \<Rightarrow> jsnumber Asset list \<Rightarrow> error + jsnumber Asset list" where
  "updateAssetAvailableQuantity dbFails asset store =
     (case ensureMax8Decimals (availableQuantity asset) ''availableQuantity'' of
        Inl e \<Rightarrow> Inl InternalServerError
      | Inr _ \<Rightarrow>
         if dbFails then Inl InternalServerError
         else Inr (map (\<lambda>a. if assetId a = assetId asset
                             then a\<lparr>availableQuantity := availableQuantity asset\<rparr> else a)
                     store))"

definition updateAssetPrice ::
  "bool \<Rightarrow> jsnumber Asset \<Rightarrow> jsnumber Asset list \<Rightarrow> error + jsnumber Asset list" where
  "updateAssetPrice dbFails asset store =
     (case ensureMax8Decimals (assetPrice asset) ''price'' of
        Inl e \<Rightarrow> Inl InternalServerError
      | Inr _ \<Rightarrow>
         (case ensureMax8Decimals (assetQuantity asset) ''quantity'' of
            Inl e \<Rightarrow> Inl InternalServerError
          | Inr _ \<Rightarrow>
             if dbFails then Inl InternalServerError
             else Inr (map (\<lambda>a. if assetId a = assetId asset
                                 then a\<lparr>assetPrice := assetPrice asset,
                                        assetQuantity := assetQuantity asset\<rparr>
                                 else a)
                         store)))"

section \<open>The worker pool of worker-pool.service.ts\<close>

text \<open>
  The pool is embedded as the state its callbacks share, and one function per event: a
  call of \<^verbatim>\<open>executeTask\<close>, and a \<^verbatim>\<open>message\<close> event of a worker with the posted result.
  A promise is a number; \<open>settled\<close> holds the value each promise was resolved with, and
  resolving a promise a second time changes nothing, as in JavaScript. Next to the handler
  that \<^verbatim>\<open>createWorker\<close> registers, each worker has the \<^verbatim>\<open>resolve\<close> functions that
  \<^verbatim>\<open>executeTask\<close> added as further \<^verbatim>\<open>message\<close> listeners; listeners run in the order they
  were added. The \<^verbatim>\<open>error\<close> and \<^verbatim>\<open>exit\<close> events are not part of the embedding.
\<close>

datatype message = UserAndData nat string | DataOnly string

record QueuedTask =
  taskUser :: nat
  taskData :: string
  taskResolve :: nat

record WorkerPool =
  pool :: "nat list"
  taskQueue :: "QueuedTask list"
  listeners :: "nat \<Rightarrow> nat list"
  posted :: "(nat \<times> message) list"
  settled :: "nat \<rightharpoonup> string"

definition newWorkerPool :: WorkerPool where
  \<comment> \<open>The constructor creates the workers and registers their handlers; \<^verbatim>\<open>createWorker\<close>
      does not put them into \<^verbatim>\<open>pool\<close>.\<close>
  "newWorkerPool = \<lparr>pool = [], taskQueue = [], listeners = (\<lambda>w. []), posted = [],
                    settled = Map.empty\<rparr>"

definition resolve :: "nat \<Rightarrow> string \<Rightarrow> (nat \<rightharpoonup> string) \<Rightarrow> (nat \<rightharpoonup> string)" where
  "resolve p result m = (case m p of None \<Rightarrow> m(p \<mapsto> result) | Some _ \<Rightarrow> m)"

definition executeTask :: "nat \<Rightarrow> nat \<Rightarrow> string \<Rightarrow> WorkerPool \<Rightarrow> WorkerPool" where
  \<comment> \<open>The first argument is the promise the call returns.\<close>
  "executeTask p user data st =
     (if pool st = [] then
        st\<lparr>taskQueue := taskQueue st @ [\<lparr>taskUser = user, taskData = data, taskResolve = p\<rparr>]\<rparr>
      else
        (let availableWorker = last (pool st)
         in st\<lparr>pool := butlast (pool st),
               posted := posted st @ [(availableWorker, UserAndData user data)],
               listeners := (listeners st)
                              (availableWorker := listeners st availableWorker @ [p])\<rparr>))"

definition onMessage :: "nat \<Rightarrow> string \<Rightarrow> WorkerPool \<Rightarrow> WorkerPool" where
  \<comment> \<open>A \<^verbatim>\<open>message\<close> event of the worker: first the handler of \<^verbatim>\<open>createWorker\<close>, then the
      \<^verbatim>\<open>resolve\<close> listeners of \<^verbatim>\<open>executeTask\<close>.\<close>
  "onMessage worker result st =
     (let st1 = (case taskQueue st of
                   [] \<Rightarrow> st\<lparr>pool := pool st @ [worker]\<rparr>
                 | task # rest \<Rightarrow>
                     st\<lparr>taskQueue := rest,
                        posted := posted st @ [(worker, DataOnly (taskData task))],
                        settled := resolve (taskResolve task) result (settled st)\<rparr>)
      in st1\<lparr>settled := fold (\<lambda>p m. resolve p result m) (listeners st1 worker) (settled st1)\<rparr>)"

section \<open>A worked order\<close>

text \<open>
  The order of the spec's scenarios: user 1 holds account 7 and has a pending BUY order 5
  for 3 BTC at a limit of 9500 KRW, against a book with asks at 9000, 9500 and 10000.
\<close>

definition exampleAccount :: Account where
  "exampleAccount = \<lparr>accountId = 7, accountUser = 1, KRW = 1000000, availableKRW = 971500,
                      USDT = 1000, BTC = 0\<rparr>"

definition exampleTrade :: Trade where
  "exampleTrade = \<lparr>tradeId = 5, tradeUser = 1, price = 9500, quantity = 3\<rparr>"

definition exampleOrder :: TradeData where
  "exampleOrder = \<lparr>dtoTradeId = 5, userId = 1, typeGiven = ''KRW'', typeReceived = ''BTC'',
                    receivedPrice = 9500, receivedAmount = 3, krw = 1,
                    accountBalance = None, account = exampleAccount\<rparr>"

definition exampleState :: State where
  "exampleState = \<lparr>trades = [exampleTrade], accounts = [exampleAccount], assets = [],
                    history = [], redis = [], console = [], isProcessing = Map.empty\<rparr>"

definition exampleBook :: "OrderBookEntry list" where
  "exampleBook = [\<lparr>ask_price = 9000, ask_size = 1\<rparr>, \<lparr>ask_price = 9500, ask_size = 1\<rparr>,
                  \<lparr>ask_price = 10000, ask_size = 5\<rparr>]"

definition exampleEnv :: Env where
  "exampleEnv = \<lparr>orderbook = exampleBook, userFault = None, accountFault = None,
                  levelFaults = []\<rparr>"

section \<open>Frame and helper lemmas\<close>

lemmas example_defs = exampleAccount_def exampleTrade_def exampleOrder_def exampleState_def
  exampleBook_def exampleEnv_def noFaults_def

lemmas engine_defs = executeBidTrade_def findTradeWithLock_def isMinimumQuantity_def
  createTradeHistory_def updateTradeData_def processAssetUpdate_def getAsset_def
  updateAccountBalances_def updateAccountCurrencyWithBid_def balanceColumn_def addToColumn_def
  rollbackTransaction_def Let_def

lemma accounts_createTradeHistory [simp]:
  "accounts (createTradeHistory b u t s) = accounts s"
  "trades (createTradeHistory b u t s) = trades s"
  "assets (createTradeHistory b u t s) = assets s"
  "isProcessing (createTradeHistory b u t s) = isProcessing s"
  by (simp_all add: createTradeHistory_def)

lemma frame_updateTradeData [simp]:
  "accounts (snd (updateTradeData t b s)) = accounts s"
  "assets (snd (updateTradeData t b s)) = assets s"
  "history (snd (updateTradeData t b s)) = history s"
  "isProcessing (snd (updateTradeData t b s)) = isProcessing s"
  "fst (updateTradeData t b s) = formatQuantity (quantity t - quantity b)"
  by (simp_all add: updateTradeData_def Let_def)

lemma frame_processAssetUpdate [simp]:
  "accounts (processAssetUpdate b d i t s) = accounts s"
  "trades (processAssetUpdate b d i t s) = trades s"
  "history (processAssetUpdate b d i t s) = history s"
  "isProcessing (processAssetUpdate b d i t s) = isProcessing s"
  by (simp_all add: processAssetUpdate_def Let_def split: option.splits)

lemma frame_updateAccountBalances [simp]:
  "assets (updateAccountBalances b d t a s) = assets s"
  "trades (updateAccountBalances b d t a s) = trades s"
  "history (updateAccountBalances b d t a s) = history s"
  "isProcessing (updateAccountBalances b d t a s) = isProcessing s"
  by (simp_all add: updateAccountBalances_def updateAccountCurrencyWithBid_def Let_def)

lemma frame_rollbackTransaction [simp]:
  "accounts (rollbackTransaction snap s) = accounts s"
  "assets (rollbackTransaction snap s) = assets s"
  "history (rollbackTransaction snap s) = history s"
  "isProcessing (rollbackTransaction snap s) = isProcessing s"
  "trades (rollbackTransaction snap s) = snap"
  by (simp_all add: rollbackTransaction_def)

lemma rollbackTransaction_same [simp]: "rollbackTransaction (trades s) s = s"
  by (simp add: rollbackTransaction_def)

lemma min_as_code: "(if (q::rat) \<ge> a then a else q) = min q a"
  by (simp add: min_def)

lemma isMinimumQuantity_zero [simp]: "isMinimumQuantity 0"
  by (simp add: isMinimumQuantity_def)

lemma formatQuantity_of_int [simp]: "formatQuantity (of_int i) = of_int i"
  unfolding formatQuantity_def
  by (simp del: of_int_mult add: of_int_mult [symmetric] del: of_int_minus add: of_int_minus [symmetric])

lemma formatQuantity_numeral [simp]: "formatQuantity (numeral n) = numeral n" "formatQuantity 0 = 0" "formatQuantity 1 = 1"
  using formatQuantity_of_int [of "numeral n"] formatQuantity_of_int [of 0] formatQuantity_of_int [of 1] by simp_all

lemma formatQuantity_neg_numeral [simp]: "formatQuantity (- numeral n) = - numeral n"
  using formatQuantity_of_int [of "- numeral n"] by simp

lemma executeBidTrade_dto:
  "fst (snd (executeBidTrade f bidDto order user s)) = bidDto \<or>
   (\<exists>acc. fst (snd (executeBidTrade f bidDto order user s)) = bidDto\<lparr>account := acc\<rparr>)"
  by (auto simp add: executeBidTrade_def Let_def split: option.splits fault.splits)

lemma executeBidTrade_receivedPrice [simp]:
  "receivedPrice (fst (snd (executeBidTrade f bidDto order user s))) = receivedPrice bidDto"
  using executeBidTrade_dto [of f bidDto order user s] by auto

lemma executeBidTrade_krw [simp]:
  "krw (fst (snd (executeBidTrade f bidDto order user s))) = krw bidDto"
  using executeBidTrade_dto [of f bidDto order user s] by auto

lemma isProcessing_executeBidTrade [simp]:
  "isProcessing (snd (snd (executeBidTrade f bidDto order user s))) = isProcessing s"
  by (simp add: executeBidTrade_def Let_def split: option.splits fault.splits)

lemma isProcessing_bidLoop [simp]:
  "isProcessing (snd (snd (bidLoop fs bidDto user ob s))) = isProcessing s"
proof (induction ob arbitrary: fs bidDto s)
  case Nil
  show ?case by simp
next
  case (Cons order rest)
  obtain r d t where ex: "executeBidTrade (nextFaults fs) bidDto order user s = (r, d, t)"
    by (cases "executeBidTrade (nextFaults fs) bidDto order user s") auto
  have "isProcessing t = isProcessing s"
    using isProcessing_executeBidTrade [of "nextFaults fs" bidDto order user s] ex by simp
  then show ?case
    using ex Cons.IH [of "tl fs" d t] by (simp split: sum.splits)
qed

lemma isProcessing_bidTradeBody [simp]:
  "isProcessing (snd (bidTradeBody env bidDto s)) = isProcessing s"
proof -
  have "\<And>fs d u ob. isProcessing (snd (case bidLoop fs d u ob s of (r, _, s') \<Rightarrow> (r, s')))
          = isProcessing s"
    using isProcessing_bidLoop by (simp add: case_prod_beta)
  then show ?thesis
    by (simp add: bidTradeBody_def Let_def split: option.splits)
qed

lemma executeBidTrade_history:
  "history (snd (snd (executeBidTrade f bidDto order user s))) = history s
   \<or> (\<exists>t. history (snd (snd (executeBidTrade f bidDto order user s))) = history s @ [(user, t)]
          \<and> price t = formatQuantity (ask_price order * krw bidDto))"
  by (simp add: executeBidTrade_def Let_def createTradeHistory_def split: option.splits fault.splits)

lemma executeBidTrade_cong:
  assumes "trades s = trades t" and "lockFault f = lockFault g"
    and "historyFault f = historyFault g" and "updateFault f = updateFault g"
    and "commitFault f = commitFault g"
  shows "fst (executeBidTrade f d ord u s) = fst (executeBidTrade g d ord u t)
       \<and> fst (snd (executeBidTrade f d ord u s)) = fst (snd (executeBidTrade g d ord u t))
       \<and> trades (snd (snd (executeBidTrade f d ord u s)))
           = trades (snd (snd (executeBidTrade g d ord u t)))"
  using assms
  by (simp add: executeBidTrade_def findTradeWithLock_def Let_def updateTradeData_def
        createTradeHistory_def split: option.splits fault.splits)

lemma nextFaults_map:
  "lockFault (nextFaults (map (\<lambda>f. f\<lparr>assetFault := a, balanceFault := b\<rparr>) fs)) = lockFault (nextFaults fs)"
  "historyFault (nextFaults (map (\<lambda>f. f\<lparr>assetFault := a, balanceFault := b\<rparr>) fs)) = historyFault (nextFaults fs)"
  "updateFault (nextFaults (map (\<lambda>f. f\<lparr>assetFault := a, balanceFault := b\<rparr>) fs)) = updateFault (nextFaults fs)"
  "commitFault (nextFaults (map (\<lambda>f. f\<lparr>assetFault := a, balanceFault := b\<rparr>) fs)) = commitFault (nextFaults fs)"
  by (cases fs; simp add: noFaults_def)+

section \<open>Balance reconciliation of a BUY fill\<close>



section \<open>The price-crossing stop rule\<close>

lemma bidLoop_stops_at_crossing:
  "bidLoop fs bidDto user ob s =
   bidLoop fs bidDto user (takeWhile (\<lambda>order. \<not> ask_price order > receivedPrice bidDto) ob) s"
proof (induction ob arbitrary: fs bidDto s)
  case Nil
  show ?case by simp
next
  case (Cons order rest)
  show ?case
  proof (cases "ask_price order > receivedPrice bidDto")
    case True
    then show ?thesis by simp
  next
    case False
    obtain r d t where ex: "executeBidTrade (nextFaults fs) bidDto order user s = (r, d, t)"
      by (cases "executeBidTrade (nextFaults fs) bidDto order user s") auto
    have rp: "receivedPrice d = receivedPrice bidDto"
      using executeBidTrade_receivedPrice [of "nextFaults fs" bidDto order user s] ex by simp
    show ?thesis
      using False ex rp Cons.IH [of "tl fs" d t]
      by (simp split: sum.splits)
  qed
qed

lemma bidLoop_history:
  "\<exists>new. history (snd (snd (bidLoop fs bidDto user ob s))) = history s @ new
     \<and> (\<forall>fill \<in> set new. \<exists>order \<in> set ob.
            \<not> ask_price order > receivedPrice bidDto
          \<and> price (snd fill) = formatQuantity (ask_price order * krw bidDto))"
proof (induction ob arbitrary: fs bidDto s)
  case Nil
  show ?case by simp
next
  case (Cons order rest)
  show ?case
  proof (cases "ask_price order > receivedPrice bidDto")
    case True
    then show ?thesis by simp
  next
    case False
    obtain r d t where ex: "executeBidTrade (nextFaults fs) bidDto order user s = (r, d, t)"
      by (cases "executeBidTrade (nextFaults fs) bidDto order user s") auto
    have rp: "receivedPrice d = receivedPrice bidDto" and kr: "krw d = krw bidDto"
      using executeBidTrade_receivedPrice [of "nextFaults fs" bidDto order user s]
        executeBidTrade_krw [of "nextFaults fs" bidDto order user s] ex by simp_all
    obtain h1 where h1: "history t = history s @ h1"
      and h1ok: "\<forall>fill \<in> set h1. price (snd fill) = formatQuantity (ask_price order * krw bidDto)"
      using executeBidTrade_history [of "nextFaults fs" bidDto order user s] ex by auto
    obtain new where new: "history (snd (snd (bidLoop (tl fs) d user rest t))) = history t @ new"
      and newok: "\<forall>fill \<in> set new. \<exists>order \<in> set rest.
            \<not> ask_price order > receivedPrice d
          \<and> price (snd fill) = formatQuantity (ask_price order * krw d)"
      using Cons.IH [of "tl fs" d t] by blast
    have stop: "\<exists>new. history t = history s @ new
       \<and> (\<forall>fill \<in> set new. \<exists>order' \<in> set (order # rest).
            \<not> ask_price order' > receivedPrice bidDto
          \<and> price (snd fill) = formatQuantity (ask_price order' * krw bidDto))"
      using h1 h1ok False by auto
    have go: "\<exists>new. history (snd (snd (bidLoop (tl fs) d user rest t))) = history s @ new
       \<and> (\<forall>fill \<in> set new. \<exists>order' \<in> set (order # rest).
            \<not> ask_price order' > receivedPrice bidDto
          \<and> price (snd fill) = formatQuantity (ask_price order' * krw bidDto))"
    proof (intro exI [of _ "h1 @ new"] conjI ballI)
      show "history (snd (snd (bidLoop (tl fs) d user rest t))) = history s @ h1 @ new"
        using new h1 by simp
    next
      fix fill assume "fill \<in> set (h1 @ new)"
      then show "\<exists>order' \<in> set (order # rest).
            \<not> ask_price order' > receivedPrice bidDto
          \<and> price (snd fill) = formatQuantity (ask_price order' * krw bidDto)"
        using h1ok newok False rp kr by auto
    qed
    show ?thesis
      using False ex stop go by (simp split: sum.splits)
  qed
qed

text \<open>
  Claim C2. The fill loop of a BUY order stops at the first level whose ask price is above
  the order's limit price: it behaves as on the book cut before that level, whatever follows
  it, and every fill it appends to the history was made at a level of the book whose ask
  price is not above the limit. With asks at 9000, 9500 and 10000 and a limit of 9500 the
  fills are those at 9000 and 9500.
\<close>

theorem C2_price_crossing_stop:
  "bidLoop fs bidDto user ob s =
     bidLoop fs bidDto user
       (takeWhile (\<lambda>order. \<not> ask_price order > receivedPrice bidDto) ob) s
   \<and> (\<exists>new. history (snd (snd (bidLoop fs bidDto user ob s))) = history s @ new
        \<and> (\<forall>fill \<in> set new. \<exists>order \<in> set ob.
               \<not> ask_price order > receivedPrice bidDto
             \<and> price (snd fill) = formatQuantity (ask_price order * krw bidDto)))"
  using bidLoop_stops_at_crossing [of fs bidDto user ob s] bidLoop_history [of fs bidDto user ob s]
  by blast

theorem C2_price_crossing_stop_witness:
  "bidLoop [] exampleOrder 1 exampleBook exampleState
     = bidLoop [] exampleOrder 1 [\<lparr>ask_price = 9000, ask_size = 1\<rparr>, \<lparr>ask_price = 9500, ask_size = 1\<rparr>]
         exampleState
   \<and> history (snd (snd (bidLoop [] exampleOrder 1 exampleBook exampleState)))
     = [(1, \<lparr>tradeId = 5, tradeUser = 1, price = 9000, quantity = 1\<rparr>),
        (1, \<lparr>tradeId = 5, tradeUser = 1, price = 9500, quantity = 1\<rparr>)]"
proof -
  have "bidLoop [] exampleOrder 1 exampleBook exampleState
     = bidLoop [] exampleOrder 1 [\<lparr>ask_price = 9000, ask_size = 1\<rparr>, \<lparr>ask_price = 9500, ask_size = 1\<rparr>]
         exampleState"
    using C2_price_crossing_stop [of "[]" exampleOrder 1 exampleBook exampleState]
    by (simp add: exampleBook_def exampleOrder_def)
  moreover have "history (snd (snd (bidLoop [] exampleOrder 1
      [\<lparr>ask_price = 9000, ask_size = 1\<rparr>, \<lparr>ask_price = 9500, ask_size = 1\<rparr>] exampleState)))
     = [(1, \<lparr>tradeId = 5, tradeUser = 1, price = 9000, quantity = 1\<rparr>),
        (1, \<lparr>tradeId = 5, tradeUser = 1, price = 9500, quantity = 1\<rparr>)]"
    by (simp add: example_defs engine_defs)
  ultimately show ?thesis by simp
qed

section \<open>Order creation with insufficient funds\<close>

text \<open>
  Whatever happens inside the \<^verbatim>\<open>try\<close> block of \<^verbatim>\<open>createBidTrade\<close> ends in its \<^verbatim>\<open>catch\<close> block: the
  only rejection left is the one of the minimum-size check in front of it.
\<close>

lemma createBidTrade_insufficient:
  assumes "\<not> isMinimumQuantity (receivedAmount bidDto * receivedPrice bidDto)"
    and "0 < receivedAmount bidDto"
    and "getAccount uid s = Some acc"
    and "formatQuantity (availableKRW acc
           - formatQuantity (receivedPrice bidDto * receivedAmount bidDto)) < 0"
  shows "createBidTrade redisFails uid bidDto s
           = (Resolved None, s\<lparr>console := console s @ [InsufficientFunds]\<rparr>)"
  using assms
  by (simp add: createBidTrade_def executeTransaction_def createBidTradeCallback_def
        validateUserAccount_def checkCurrencyBalance_def Let_def)

lemma createBidTrade_rejects_only_below_minimum:
  "fst (createBidTrade redisFails uid bidDto s) = Rejected e \<Longrightarrow>
     e = BelowMinimumTradeSize \<and> isMinimumQuantity (receivedAmount bidDto * receivedPrice bidDto)"
  by (auto simp add: createBidTrade_def executeTransaction_def split: if_splits sum.splits prod.splits)

text \<open>
  Claim C3. An order whose notional exceeds the owner's available balance: the check
  \<^verbatim>\<open>checkCurrencyBalance\<close> throws inside the \<^verbatim>\<open>try\<close> block of \<^verbatim>\<open>createBidTrade\<close>, whose
  \<^verbatim>\<open>catch\<close> block logs the error and returns nothing. For the worked account (available
  balance 971500) and an order of 3 at a price of 1000000, the promise is fulfilled with
  \<^verbatim>\<open>undefined\<close>, not rejected; no order is inserted and the balance is as before.
\<close>

theorem C3_insufficient_funds_swallowed:
  "createBidTrade False 1 (exampleOrder\<lparr>receivedPrice := 1000000\<rparr>) exampleState
     = (Resolved None, exampleState\<lparr>console := [InsufficientFunds]\<rparr>)"
  using createBidTrade_insufficient [of "exampleOrder\<lparr>receivedPrice := 1000000\<rparr>" 1 exampleState
          exampleAccount False]
  by (simp add: example_defs isMinimumQuantity_def getAccount_def)

section \<open>The fill quantity\<close>

text \<open>
  Claim C4. At an eligible level where the locked load finds the order with a remaining
  quantity that is not dust, the fill quantity \<open>Q\<close> is the truncated minimum of the order's
  remaining quantity and the size of the level. If \<open>Q\<close> is under the minimum, the attempt
  returns 0 with the state untouched and the loop ends without a look at the deeper levels.
  Otherwise, when the update and the commit succeed, the order's remaining quantity is
  reduced by \<open>Q\<close> and is the result, and the recorded fill has quantity \<open>Q\<close>.
\<close>

theorem C4_fill_quantity:
  assumes "lockFault f = None"
    and "findTradeWithLock (dtoTradeId bidDto) s = Some tradeData"
    and "\<not> isMinimumQuantity (quantity tradeData)"
    and "Q = formatQuantity (min (quantity tradeData) (ask_size order))"
    and "\<not> ask_price order > receivedPrice bidDto"
  shows "(isMinimumQuantity Q \<longrightarrow>
            executeBidTrade f bidDto order user s = (Inr 0, bidDto, s)
          \<and> bidLoop (f # fs) bidDto user (order # rest) s = (Inr (), bidDto, s))
       \<and> (\<not> isMinimumQuantity Q \<and> updateFault f = NoFault \<and> commitFault f = None \<longrightarrow>
            fst (executeBidTrade f bidDto order user s)
              = Inr (formatQuantity (quantity tradeData - Q))
          \<and> trades (snd (snd (executeBidTrade f bidDto order user s)))
              = trades (snd (updateTradeData tradeData (tradeData\<lparr>quantity := Q\<rparr>) s))
          \<and> (\<not> historyFault f \<longrightarrow>
               history (snd (snd (executeBidTrade f bidDto order user s)))
                 = history s @ [(user, tradeData\<lparr>quantity := Q,
                      price := formatQuantity (ask_price order * krw bidDto)\<rparr>)]))"
  using assms
  by (auto simp add: executeBidTrade_def Let_def min_as_code updateTradeData_def createTradeHistory_def)

theorem C4_fill_quantity_witness:
  "executeBidTrade noFaults exampleOrder \<lparr>ask_price = 9000, ask_size = 0\<rparr> 1 exampleState
     = (Inr 0, exampleOrder, exampleState)
   \<and> bidLoop [noFaults] exampleOrder 1
        [\<lparr>ask_price = 9000, ask_size = 0\<rparr>, \<lparr>ask_price = 9500, ask_size = 5\<rparr>] exampleState
     = (Inr (), exampleOrder, exampleState)
   \<and> fst (executeBidTrade noFaults exampleOrder \<lparr>ask_price = 9000, ask_size = 1\<rparr> 1 exampleState)
     = Inr 2
   \<and> trades (snd (snd (executeBidTrade noFaults exampleOrder \<lparr>ask_price = 9000, ask_size = 1\<rparr> 1
        exampleState))) = [exampleTrade\<lparr>quantity := 2\<rparr>]
   \<and> history (snd (snd (executeBidTrade noFaults exampleOrder \<lparr>ask_price = 9000, ask_size = 1\<rparr> 1
        exampleState))) = [(1, exampleTrade\<lparr>quantity := 1, price := 9000\<rparr>)]"
  using C4_fill_quantity [of noFaults exampleOrder exampleState exampleTrade 0
          "\<lparr>ask_price = 9000, ask_size = 0\<rparr>" 1 "[]" "[\<lparr>ask_price = 9500, ask_size = 5\<rparr>]"]
    C4_fill_quantity [of noFaults exampleOrder exampleState exampleTrade 1
          "\<lparr>ask_price = 9000, ask_size = 1\<rparr>" 1 "[]" "[]"]
  by (simp add: example_defs findTradeWithLock_def isMinimumQuantity_def updateTradeData_def)

section \<open>Rollback of a failed fill\<close>

text \<open>
  Claim C5. When a fill attempt ends with an error, the orders, the balances, the asset
  holdings and the account carried in memory are as before the attempt; and a throw of
  the locked load, or of the remaining-quantity update once it is reached (before or after
  its write), is the error the attempt ends with.
\<close>

theorem C5_rollback:
  "(fst (executeBidTrade f bidDto order user s) = Inl e \<longrightarrow>
      trades (snd (snd (executeBidTrade f bidDto order user s))) = trades s
    \<and> accounts (snd (snd (executeBidTrade f bidDto order user s))) = accounts s
    \<and> assets (snd (snd (executeBidTrade f bidDto order user s))) = assets s
    \<and> fst (snd (executeBidTrade f bidDto order user s)) = bidDto)
   \<and> (lockFault f = Some e \<longrightarrow> fst (executeBidTrade f bidDto order user s) = Inl e)
   \<and> (lockFault f = None
        \<and> findTradeWithLock (dtoTradeId bidDto) s = Some tradeData
        \<and> \<not> isMinimumQuantity (quantity tradeData)
        \<and> \<not> isMinimumQuantity (formatQuantity (min (quantity tradeData) (ask_size order)))
        \<and> (updateFault f = FailBefore e \<or> updateFault f = FailAfter e)
      \<longrightarrow> fst (executeBidTrade f bidDto order user s) = Inl e)"
  by (simp add: executeBidTrade_def Let_def min_as_code split: option.splits fault.splits)

theorem C5_rollback_witness:
  "fst (executeBidTrade (noFaults\<lparr>updateFault := FailAfter StorageFailure\<rparr>) exampleOrder
          \<lparr>ask_price = 9000, ask_size = 1\<rparr> 1 exampleState) = Inl StorageFailure
   \<and> trades (snd (snd (executeBidTrade (noFaults\<lparr>updateFault := FailAfter StorageFailure\<rparr>)
          exampleOrder \<lparr>ask_price = 9000, ask_size = 1\<rparr> 1 exampleState))) = [exampleTrade]
   \<and> accounts (snd (snd (executeBidTrade (noFaults\<lparr>updateFault := FailAfter StorageFailure\<rparr>)
          exampleOrder \<lparr>ask_price = 9000, ask_size = 1\<rparr> 1 exampleState))) = [exampleAccount]
   \<and> assets (snd (snd (executeBidTrade (noFaults\<lparr>updateFault := FailAfter StorageFailure\<rparr>)
          exampleOrder \<lparr>ask_price = 9000, ask_size = 1\<rparr> 1 exampleState))) = []
   \<and> fst (executeBidTrade (noFaults\<lparr>lockFault := Some StorageFailure\<rparr>) exampleOrder
          \<lparr>ask_price = 9000, ask_size = 1\<rparr> 1 exampleState) = Inl StorageFailure"
  using C5_rollback [of "noFaults\<lparr>updateFault := FailAfter StorageFailure\<rparr>" exampleOrder
          "\<lparr>ask_price = 9000, ask_size = 1\<rparr>" 1 exampleState StorageFailure exampleTrade]
    C5_rollback [of "noFaults\<lparr>lockFault := Some StorageFailure\<rparr>" exampleOrder
          "\<lparr>ask_price = 9000, ask_size = 1\<rparr>" 1 exampleState StorageFailure exampleTrade]
  by (simp add: example_defs findTradeWithLock_def isMinimumQuantity_def)

section \<open>A vanished order\<close>

text \<open>
  Claim C6. When the locked load finds no order, or finds the order with a remaining
  quantity under the minimum, or throws the TradeNotFoundException, the fill attempt leaves
  the whole state and the carried order untouched, and the fill loop ends there without an
  error.
\<close>

theorem C6_order_vanished:
  assumes "findTradeWithLock (dtoTradeId bidDto) s = None
           \<or> (\<exists>tradeData. findTradeWithLock (dtoTradeId bidDto) s = Some tradeData
                 \<and> isMinimumQuantity (quantity tradeData))
           \<or> lockFault f = Some TradeNotFound"
    and "lockFault f = None \<or> lockFault f = Some TradeNotFound"
    and "\<not> ask_price order > receivedPrice bidDto"
  shows "snd (executeBidTrade f bidDto order user s) = (bidDto, s)
         \<and> bidLoop (f # fs) bidDto user (order # rest) s = (Inr (), bidDto, s)"
  using assms
  by (auto simp add: executeBidTrade_def Let_def split: option.splits)

theorem C6_order_vanished_witness:
  "snd (executeBidTrade noFaults exampleOrder \<lparr>ask_price = 9000, ask_size = 1\<rparr> 1
          (exampleState\<lparr>trades := []\<rparr>)) = (exampleOrder, exampleState\<lparr>trades := []\<rparr>)
   \<and> bidLoop [noFaults] exampleOrder 1
        [\<lparr>ask_price = 9000, ask_size = 1\<rparr>, \<lparr>ask_price = 9500, ask_size = 1\<rparr>]
        (exampleState\<lparr>trades := []\<rparr>)
     = (Inr (), exampleOrder, exampleState\<lparr>trades := []\<rparr>)"
  using C6_order_vanished [of exampleOrder "exampleState\<lparr>trades := []\<rparr>" noFaults
          "\<lparr>ask_price = 9000, ask_size = 1\<rparr>" 1 "[]" "[\<lparr>ask_price = 9500, ask_size = 1\<rparr>]"]
  by (simp add: example_defs findTradeWithLock_def)

section \<open>The decimal check of the asset repository\<close>

text \<open>
  For a number that \<^verbatim>\<open>Number::toString\<close> prints in plain notation (exponent \<open>n\<close> from -5 to
  21) the check is exact: it throws if and only if the value has more than 8 fractional
  digits. NaN and the infinities are refused.
\<close>

lemma digitChar_not_dot [simp]: "digitChar d \<noteq> CHR ''.''" "CHR ''.'' \<noteq> digitChar d"
  by (simp_all add: digitChar_def)

lemma split_no_separator: "c \<notin> set xs \<Longrightarrow> split c xs = [xs]"
  by (induction xs) auto

lemma split_one_separator:
  "c \<notin> set xs \<Longrightarrow> c \<notin> set ys \<Longrightarrow> split c (xs @ c # ys) = [xs, ys]"
  by (induction xs) (auto simp add: split_no_separator)

lemma dot_notin_digits [simp]: "CHR ''.'' \<notin> set (map digitChar ds)"
  by (induction ds) auto

lemma ensureMax8Decimals_plain_notation:
  assumes "- 6 < n" and "n \<le> 21"
  shows "ensureMax8Decimals (Finite neg ds n) fieldName
           = (if fractionDigits (Finite neg ds n) > 8 then Inl InvalidValue else Inr ())"
proof -
  let ?sign = "(if neg then ''-'' else [])"
  have sign: "CHR ''.'' \<notin> set ?sign" by simp
  consider (int) "int (length ds) \<le> n" | (mixed) "0 < n" "n < int (length ds)"
    | (small) "n \<le> 0" "n < int (length ds)" by linarith
  then show ?thesis
  proof cases
    case int
    then have "toString (Finite neg ds n)
        = ?sign @ map digitChar ds @ replicate (nat (n - int (length ds))) (CHR ''0'')"
      using assms by (simp add: finiteToString_def)
    then have "CHR ''.'' \<notin> set (toString (Finite neg ds n))"
      by auto
    then show ?thesis using int
      by (simp add: ensureMax8Decimals_def fractionDigits_def Let_def del: toString.simps)
  next
    case mixed
    then have ts: "toString (Finite neg ds n)
        = (?sign @ map digitChar (take (nat n) ds)) @ CHR ''.'' # map digitChar (drop (nat n) ds)"
      using assms by (simp add: finiteToString_def)
    have "split (CHR ''.'') (toString (Finite neg ds n))
        = [?sign @ map digitChar (take (nat n) ds), map digitChar (drop (nat n) ds)]"
      unfolding ts by (rule split_one_separator) auto
    moreover have "CHR ''.'' \<in> set (toString (Finite neg ds n))"
      unfolding ts by simp
    moreover have "length (map digitChar (drop (nat n) ds)) = nat (int (length ds) - n)"
      using mixed by simp
    ultimately show ?thesis
      by (simp add: ensureMax8Decimals_def fractionDigits_def Let_def del: toString.simps)
  next
    case small
    then have ts: "toString (Finite neg ds n)
        = (?sign @ ''0'') @ CHR ''.'' # (replicate (nat (- n)) (CHR ''0'') @ map digitChar ds)"
      using assms by (simp add: finiteToString_def)
    have "split (CHR ''.'') (toString (Finite neg ds n))
        = [?sign @ ''0'', replicate (nat (- n)) (CHR ''0'') @ map digitChar ds]"
      unfolding ts by (rule split_one_separator) auto
    moreover have "CHR ''.'' \<in> set (toString (Finite neg ds n))"
      unfolding ts by simp
    moreover have "length (replicate (nat (- n)) (CHR ''0'') @ map digitChar ds)
        = nat (int (length ds) - n)"
      using small by simp
    ultimately show ?thesis
      by (simp add: ensureMax8Decimals_def fractionDigits_def Let_def del: toString.simps)
  qed
qed

lemma ensureMax8Decimals_not_finite:
  "ensureMax8Decimals NaN fieldName = Inl InvalidValue"
  "ensureMax8Decimals (Infinity neg) fieldName = Inl InvalidValue"
  by (simp_all add: ensureMax8Decimals_def)

text \<open>
  Claim C7. The decimal check of the asset repository reads the text of
  \<^verbatim>\<open>value.toString()\<close>, which is in exponent notation for a number under 0.000001. The
  number 0.000000001 has 9 fractional digits and the text \<^verbatim>\<open>1e-9\<close>, without a decimal
  point: \<^verbatim>\<open>createAsset\<close> accepts it as a quantity and stores it.
\<close>

theorem C7_exponent_notation_accepted:
  "createAsset False ''BTC'' exampleAccount (Finite False [1] 1) (Finite False [1] (- 8)) []
     = Inr (\<lparr>assetId = 0, assetName = ''BTC'', assetAccount = 7, assetPrice = Finite False [1] 1,
             assetQuantity = Finite False [1] (- 8), availableQuantity = Finite False [1] (- 8)\<rparr>,
            [\<lparr>assetId = 0, assetName = ''BTC'', assetAccount = 7, assetPrice = Finite False [1] 1,
             assetQuantity = Finite False [1] (- 8), availableQuantity = Finite False [1] (- 8)\<rparr>])
   \<and> fractionDigits (Finite False [1] (- 8)) = 9
   \<and> toString (Finite False [1] (- 8)) = ''1e-9''"
  by (simp add: createAsset_def ensureMax8Decimals_def finiteToString_def digitChar_def fractionDigits_def exampleAccount_def Let_def)

section \<open>The in-flight guard\<close>



section \<open>The worker pool\<close>

text \<open>
  Dispatch and queueing: a task goes to the idle worker on top of \<^verbatim>\<open>pool\<close> at once, or to
  the end of the queue when no worker is idle, and a \<^verbatim>\<open>message\<close> event takes the task at
  the head of the queue. That task's promise is resolved with the result that just
  arrived, which is the result of the worker's previous task.
\<close>

lemma executeTask_idle_worker:
  "pool st \<noteq> [] \<Longrightarrow>
     posted (executeTask p user data st) = posted st @ [(last (pool st), UserAndData user data)]
   \<and> pool (executeTask p user data st) = butlast (pool st)
   \<and> taskQueue (executeTask p user data st) = taskQueue st"
  by (simp add: executeTask_def Let_def)

lemma executeTask_no_idle_worker:
  "pool st = [] \<Longrightarrow>
     taskQueue (executeTask p user data st)
       = taskQueue st @ [\<lparr>taskUser = user, taskData = data, taskResolve = p\<rparr>]
   \<and> posted (executeTask p user data st) = posted st"
  by (simp add: executeTask_def)

lemma resolve_keeps: "m p = Some r \<Longrightarrow> resolve q result m p = Some r"
  by (cases "m q") (auto simp add: resolve_def)

lemma fold_resolve_keeps: "m p = Some r \<Longrightarrow> fold (\<lambda>q m. resolve q result m) ps m p = Some r"
  by (induction ps arbitrary: m) (simp_all add: resolve_keeps)

lemma resolve_unsettled: "m p = None \<Longrightarrow> resolve p result m p = Some result"
  by (simp add: resolve_def)

lemma onMessage_claims_head_of_queue:
  "taskQueue st = task # rest \<Longrightarrow>
     taskQueue (onMessage worker result st) = rest
   \<and> posted (onMessage worker result st) = posted st @ [(worker, DataOnly (taskData task))]
   \<and> pool (onMessage worker result st) = pool st
   \<and> (settled st (taskResolve task) = None \<longrightarrow>
        settled (onMessage worker result st) (taskResolve task) = Some result)"
  by (simp add: onMessage_def Let_def fold_resolve_keeps resolve_unsettled)

text \<open>
  Claim C9. A pool whose worker 0 is idle gets task \<^verbatim>\<open>a\<close> (promise 1), then task \<^verbatim>\<open>b\<close>
  (promise 2). Task \<^verbatim>\<open>a\<close> goes to worker 0 at once and task \<^verbatim>\<open>b\<close> waits in the queue. When
  the worker posts the result \<^verbatim>\<open>r1\<close> of task \<^verbatim>\<open>a\<close>, the handler takes task \<^verbatim>\<open>b\<close> from the queue,
  posts it to the worker and resolves the promise of task \<^verbatim>\<open>b\<close> with \<^verbatim>\<open>r1\<close>. The result
  \<^verbatim>\<open>r2\<close> of task \<^verbatim>\<open>b\<close>, posted later, reaches no caller.
\<close>

theorem C9_queued_task_gets_previous_result:
  "(let st = onMessage 0 ''r2''
              (onMessage 0 ''r1''
                (executeTask 2 12 ''b''
                  (executeTask 1 11 ''a'' (onMessage 0 ''ready'' newWorkerPool))))
    in posted st = [(0, UserAndData 11 ''a''), (0, DataOnly ''b'')]
       \<and> settled st 1 = Some ''r1'' \<and> settled st 2 = Some ''r1'')"
  by (simp add: onMessage_def executeTask_def newWorkerPool_def resolve_def Let_def)

section \<open>Reconciliation is not awaited\<close>

lemma bidLoop_ignores_reconciliation:
  "trades s = trades t \<Longrightarrow>
   fst (bidLoop (map (\<lambda>f. f\<lparr>assetFault := a, balanceFault := b\<rparr>) fs) d u ob s)
     = fst (bidLoop fs d u ob t)
   \<and> fst (snd (bidLoop (map (\<lambda>f. f\<lparr>assetFault := a, balanceFault := b\<rparr>) fs) d u ob s))
     = fst (snd (bidLoop fs d u ob t))
   \<and> trades (snd (snd (bidLoop (map (\<lambda>f. f\<lparr>assetFault := a, balanceFault := b\<rparr>) fs) d u ob s)))
     = trades (snd (snd (bidLoop fs d u ob t)))"
proof (induction ob arbitrary: fs d s t)
  case Nil
  then show ?case by simp
next
  case (Cons ord rest)
  let ?g = "\<lambda>f. f\<lparr>assetFault := a, balanceFault := b\<rparr>"
  obtain r1 d1 s1 where e1: "executeBidTrade (nextFaults (map ?g fs)) d ord u s = (r1, d1, s1)"
    by (cases "executeBidTrade (nextFaults (map ?g fs)) d ord u s") auto
  obtain r2 d2 t2 where e2: "executeBidTrade (nextFaults fs) d ord u t = (r2, d2, t2)"
    by (cases "executeBidTrade (nextFaults fs) d ord u t") auto
  have same: "r1 = r2 \<and> d1 = d2 \<and> trades s1 = trades t2"
    using executeBidTrade_cong [of s t "nextFaults (map ?g fs)" "nextFaults fs" d ord u]
      Cons.prems e1 e2 nextFaults_map [where a = a and b = b and fs = fs] by simp
  have tl: "tl (map ?g fs) = map ?g (tl fs)"
    by (simp add: map_tl)
  show ?case
    using same e1 e2 tl Cons.prems Cons.IH [where s = s1 and t = t2 and fs = "tl fs" and d = d2]
    by (simp split: sum.splits)
qed

text \<open>
  Claim C10. \<^verbatim>\<open>executeBidTrade\<close> does not await \<^verbatim>\<open>processAssetUpdate\<close> and
  \<^verbatim>\<open>updateAccountBalances\<close>: whether they fail or not, the attempt gives the same result
  (the remaining quantity of a fill that succeeded), the same carried order and the same
  order store, and the fill loop ends with the same result.
\<close>

theorem C10_reconciliation_not_awaited:
  "fst (executeBidTrade (f\<lparr>assetFault := a, balanceFault := b\<rparr>) bidDto order user s)
     = fst (executeBidTrade f bidDto order user s)
   \<and> fst (snd (executeBidTrade (f\<lparr>assetFault := a, balanceFault := b\<rparr>) bidDto order user s))
     = fst (snd (executeBidTrade f bidDto order user s))
   \<and> trades (snd (snd (executeBidTrade (f\<lparr>assetFault := a, balanceFault := b\<rparr>) bidDto order user s)))
     = trades (snd (snd (executeBidTrade f bidDto order user s)))
   \<and> fst (bidLoop (map (\<lambda>f. f\<lparr>assetFault := a, balanceFault := b\<rparr>) fs) bidDto user ob s)
     = fst (bidLoop fs bidDto user ob s)"
proof -
  have "fst (bidLoop (map (\<lambda>f. f\<lparr>assetFault := a, balanceFault := b\<rparr>) fs) bidDto user ob s)
     = fst (bidLoop fs bidDto user ob s)"
    using bidLoop_ignores_reconciliation [where s = s and t = s and a = a and b = b] by simp
  moreover have "fst (executeBidTrade (f\<lparr>assetFault := a, balanceFault := b\<rparr>) bidDto order user s)
     = fst (executeBidTrade f bidDto order user s)
   \<and> fst (snd (executeBidTrade (f\<lparr>assetFault := a, balanceFault := b\<rparr>) bidDto order user s))
     = fst (snd (executeBidTrade f bidDto order user s))
   \<and> trades (snd (snd (executeBidTrade (f\<lparr>assetFault := a, balanceFault := b\<rparr>) bidDto order user s)))
     = trades (snd (snd (executeBidTrade f bidDto order user s)))"
    using executeBidTrade_cong [where s = s and t = s and f = "f\<lparr>assetFault := a, balanceFault := b\<rparr>"
            and g = f] by simp
  ultimately show ?thesis by simp
qed

theorem C10_reconciliation_not_awaited_witness:
  "fst (executeBidTrade (noFaults\<lparr>assetFault := True, balanceFault := True\<rparr>) exampleOrder
          \<lparr>ask_price = 9000, ask_size = 1\<rparr> 1 exampleState) = Inr 2
   \<and> assets (snd (snd (executeBidTrade (noFaults\<lparr>assetFault := True, balanceFault := True\<rparr>)
          exampleOrder \<lparr>ask_price = 9000, ask_size = 1\<rparr> 1 exampleState))) = []
   \<and> accounts (snd (snd (executeBidTrade (noFaults\<lparr>assetFault := True, balanceFault := True\<rparr>)
          exampleOrder \<lparr>ask_price = 9000, ask_size = 1\<rparr> 1 exampleState))) = [exampleAccount]"
proof -
  have "fst (executeBidTrade noFaults exampleOrder \<lparr>ask_price = 9000, ask_size = 1\<rparr> 1 exampleState)
          = Inr 2"
    by (simp add: example_defs engine_defs)
  then have "fst (executeBidTrade (noFaults\<lparr>assetFault := True, balanceFault := True\<rparr>) exampleOrder
          \<lparr>ask_price = 9000, ask_size = 1\<rparr> 1 exampleState) = Inr 2"
    using C10_reconciliation_not_awaited [where f = noFaults and a = True and b = True
            and bidDto = exampleOrder and order = "\<lparr>ask_price = 9000, ask_size = 1\<rparr>"
            and user = 1 and s = exampleState and fs = "[]" and ob = "[]"]
    by simp
  moreover have "assets (snd (snd (executeBidTrade (noFaults\<lparr>assetFault := True, balanceFault := True\<rparr>)
          exampleOrder \<lparr>ask_price = 9000, ask_size = 1\<rparr> 1 exampleState))) = []
   \<and> accounts (snd (snd (executeBidTrade (noFaults\<lparr>assetFault := True, balanceFault := True\<rparr>)
          exampleOrder \<lparr>ask_price = 9000, ask_size = 1\<rparr> 1 exampleState))) = [exampleAccount]"
    by (simp add: example_defs engine_defs)
  ultimately show ?thesis by simp
qed

end
